theory Spec2Isabelle
  imports Main "HOL-Library.Char_ord" "HOL-Library.List_Lexorder"
begin

section \<open>Values of the program\<close>

text \<open>
  An exception is an instance of a class derived from \<open>Exception\<close>, which is what a
  failed request, a failed parse and the errors of the built-in operations raise and
  what \<open>except Exception\<close> catches: its class name and the text that \<open>str(e)\<close> gives.
  Interrupts of the process from outside (\<open>KeyboardInterrupt\<close>) are not part of a run.
\<close>

datatype exn = PyException (exn_class: string) (exn_text: string)

definition ZeroDivisionError :: exn where
  "ZeroDivisionError = PyException ''ZeroDivisionError'' ''division by zero''"

definition OverflowError :: exn where
  "OverflowError = PyException ''OverflowError'' ''integer division result too large for a float''"

text \<open>
  A Python float is kept as the data that \<open>repr\<close> prints: a finite double is its sign,
  the digits of the shortest decimal that reads back as this double, and the position of
  the decimal point (the value is \<open>0.d1d2...dn * 10 ^ decpt\<close>); \<open>0.6\<close> is
  \<open>PyFinite False [6] 0\<close> and \<open>110.0\<close> is \<open>PyFinite False [1, 1] 3\<close>. The arithmetic on
  doubles (true division of integers, \<open>round\<close>) is not defined here: the functions that
  compute take it as the parameter \<open>float_ops\<close>.
\<close>

datatype pyfloat = PyFinite bool "nat list" int | PyInf bool | PyNaN

definition float_zero :: pyfloat where
  "float_zero = PyFinite False [0] 1"

record float_ops =
  fdiv :: "int \<Rightarrow> int \<Rightarrow> pyfloat"
  fround :: "pyfloat \<Rightarrow> int \<Rightarrow> pyfloat"

text \<open>
  The largest quotient that still rounds to a finite double is just below
  \<open>2 ^ 1024 - 2 ^ 970\<close>; from there on \<open>a / b\<close> on integers raises OverflowError.
\<close>

definition float_overflow_bound :: int where
  "float_overflow_bound = 2 ^ 1024 - 2 ^ 970"

definition truediv :: "float_ops \<Rightarrow> int \<Rightarrow> int \<Rightarrow> exn + pyfloat" where
  "truediv fo a b =
     (if b = 0 then Inl ZeroDivisionError
      else if float_overflow_bound * \<bar>b\<bar> \<le> \<bar>a\<bar> then Inl OverflowError
      else Inr (fdiv fo a b))"

text \<open>
  A fragment of double arithmetic, enough to run examples: \<open>3 / 5\<close> is \<open>0.6\<close>, \<open>41 / 82\<close>
  is \<open>0.5\<close> and \<open>2 / 3\<close> is \<open>0.6666666666666666\<close>; \<open>round(2 / 3, 3)\<close> is \<open>0.667\<close>, and
  rounding \<open>0.6\<close> or \<open>0.5\<close> to three places leaves them as they are.
\<close>

definition two_thirds :: pyfloat where
  "two_thirds = PyFinite False [6, 6, 6, 6, 6, 6, 6, 6, 6, 6, 6, 6, 6, 6, 6, 6] 0"

definition example_float_ops :: float_ops where
  "example_float_ops =
     \<lparr>fdiv = (\<lambda>a b. if a = 3 \<and> b = 5 then PyFinite False [6] 0
                      else if a = 41 \<and> b = 82 then PyFinite False [5] 0
                      else if a = 2 \<and> b = 3 then two_thirds
                      else PyNaN),
      fround = (\<lambda>x n. if x = two_thirds \<and> n = 3 then PyFinite False [6, 6, 7] 0 else x)\<rparr>"

section \<open>Text of numbers\<close>

definition digit_char :: "nat \<Rightarrow> char" where
  "digit_char d = char_of (48 + d)"

fun str_nat :: "nat \<Rightarrow> string" where
  "str_nat n = (if n < 10 then [digit_char n] else str_nat (n div 10) @ [digit_char (n mod 10)])"

declare str_nat.simps [simp del]

definition str_int :: "int \<Rightarrow> string" where
  "str_int i = (if i < 0 then CHR ''-'' # str_nat (nat (- i)) else str_nat (nat i))"

text \<open>
  \<open>repr\<close> of a float (it is also its \<open>str\<close>): fixed notation while the decimal point
  lies in \<open>-4 < decpt \<le> 16\<close>, with \<open>.0\<close> added to a whole number, and exponent notation
  with at least two exponent digits otherwise.
\<close>

definition exponent_text :: "int \<Rightarrow> string" where
  "exponent_text e =
     (if e < 0 then ''-'' else ''+'') @
     (if \<bar>e\<bar> < 10 then ''0'' else []) @ str_nat (nat \<bar>e\<bar>)"

definition finite_repr :: "nat list \<Rightarrow> int \<Rightarrow> string" where
  "finite_repr ds decpt =
     (let n = int (length ds); body = map digit_char ds in
      if decpt \<le> - 4 \<or> 16 < decpt then
        take 1 body @ (if 1 < n then ''.'' @ drop 1 body else []) @ ''e'' @ exponent_text (decpt - 1)
      else if decpt \<le> 0 then ''0.'' @ replicate (nat (- decpt)) CHR ''0'' @ body
      else if n \<le> decpt then body @ replicate (nat (decpt - n)) CHR ''0'' @ ''.0''
      else take (nat decpt) body @ ''.'' @ drop (nat decpt) body)"

fun float_repr :: "pyfloat \<Rightarrow> string" where
  "float_repr (PyFinite neg ds decpt) = (if neg then ''-'' else []) @ finite_repr ds decpt"
| "float_repr (PyInf neg) = (if neg then ''-inf'' else ''inf'')"
| "float_repr PyNaN = ''nan''"

datatype pyval = PStr string | PFloat pyfloat

fun str_val :: "pyval \<Rightarrow> string" where
  "str_val (PStr s) = s"
| "str_val (PFloat x) = float_repr x"

section \<open>Dictionaries\<close>

text \<open>
  A dict is the list of its items in insertion order (the order \<open>items()\<close> iterates in);
  its keys are pairwise distinct. Strings are the bytes of their UTF-8 encoding, whose
  lexicographic order is the order of the code points, which is how Python compares \<open>str\<close>.
\<close>

type_synonym ('k, 'v) dict = "('k \<times> 'v) list"

definition is_dict :: "('k, 'v) dict \<Rightarrow> bool" where
  "is_dict d = distinct (map fst d)"

definition dict_keys :: "('k, 'v) dict \<Rightarrow> 'k set" where
  "dict_keys d = fst ` set d"

definition dict_contains :: "('k, 'v) dict \<Rightarrow> 'k \<Rightarrow> bool" where
  "dict_contains d k = (k \<in> dict_keys d)"

definition KeyError :: "string \<Rightarrow> exn" where
  "KeyError k = PyException ''KeyError'' k"

definition dict_getitem :: "(string, 'v) dict \<Rightarrow> string \<Rightarrow> exn + 'v" where
  "dict_getitem d k = (case map_of d k of None \<Rightarrow> Inl (KeyError k) | Some v \<Rightarrow> Inr v)"

fun dict_set :: "('k, 'v) dict \<Rightarrow> 'k \<Rightarrow> 'v \<Rightarrow> ('k, 'v) dict" where
  "dict_set [] k v = [(k, v)]"
| "dict_set (item # d) k v = (if fst item = k then (k, v) # d else item # dict_set d k v)"

section \<open>Records of the data model\<close>

record standing =
  s_TEAM_NAME :: string
  s_W_PCT :: pyfloat

record advanced =
  a_OFF_RATING :: pyfloat
  a_DEF_RATING :: pyfloat
  a_NET_RATING :: pyfloat
  a_AST_PCT :: pyfloat
  a_REB_PCT :: pyfloat
  a_TS_PCT :: pyfloat
  a_PACE :: pyfloat

record merged_row =
  TEAM_ID :: string
  TEAM_NAME :: string
  W_PCT :: pyfloat
  OFF_RATING :: pyfloat
  DEF_RATING :: pyfloat
  NET_RATING :: pyfloat
  AST_PCT :: pyfloat
  REB_PCT :: pyfloat
  TS_PCT :: pyfloat
  PACE :: pyfloat
  Season :: string

text \<open>The rows of the two data frames, with the columns the fetchers read.\<close>

record standings_frame_row =
  df_TEAMID :: int
  df_WINS :: int
  df_LOSSES :: int
  df_TEAMNAME :: string

record advanced_frame_row =
  df_TEAM_ID :: int
  df_OFF_RATING :: pyfloat
  df_DEF_RATING :: pyfloat
  df_NET_RATING :: pyfloat
  df_AST_PCT :: pyfloat
  df_REB_PCT :: pyfloat
  df_TS_PCT :: pyfloat
  df_PACE :: pyfloat

section \<open>Configuration\<close>

definition SEASON :: string where
  "SEASON = ''2025-26''"

definition OUTPUT_FILE :: string where
  "OUTPUT_FILE = ''current_season.csv''"

definition CSV_COLUMNS :: "string list" where
  "CSV_COLUMNS =
     [''TEAM_ID'', ''TEAM_NAME'', ''W_PCT'',
      ''OFF_RATING'', ''DEF_RATING'', ''NET_RATING'',
      ''AST_PCT'', ''REB_PCT'', ''TS_PCT'', ''PACE'',
      ''Season'']"

section \<open>Standings fetcher\<close>

text \<open>
  Line 74:
  \<open>w_pct = round(wins / (wins + losses), 3) if (wins + losses) > 0 else 0.0\<close>.
\<close>

definition w_pct :: "float_ops \<Rightarrow> int \<Rightarrow> int \<Rightarrow> exn + pyfloat" where
  "w_pct fo wins losses =
     (if wins + losses > 0
      then (case truediv fo wins (wins + losses) of
              Inl e \<Rightarrow> Inl e
            | Inr q \<Rightarrow> Inr (fround fo q 3))
      else Inr float_zero)"

text \<open>
  Lines 69 to 79: the loop over the rows of the data frame. The frame's columns are
  typed; a response that does not parse is a response that raises.
\<close>

fun standings_loop ::
  "float_ops \<Rightarrow> standings_frame_row list \<Rightarrow> (string, standing) dict \<Rightarrow> exn + (string, standing) dict"
where
  "standings_loop fo [] standings = Inr standings"
| "standings_loop fo (row # df) standings =
     (let tid = str_int (df_TEAMID row);
          wins = df_WINS row;
          losses = df_LOSSES row
      in case w_pct fo wins losses of
           Inl e \<Rightarrow> Inl e
         | Inr p \<Rightarrow>
             standings_loop fo df
               (dict_set standings tid \<lparr>s_TEAM_NAME = df_TEAMNAME row, s_W_PCT = p\<rparr>))"

section \<open>Advanced-stats fetcher\<close>

fun advanced_loop ::
  "float_ops \<Rightarrow> advanced_frame_row list \<Rightarrow> (string, advanced) dict \<Rightarrow> (string, advanced) dict"
where
  "advanced_loop fo [] stats = stats"
| "advanced_loop fo (row # df) stats =
     advanced_loop fo df
       (dict_set stats (str_int (df_TEAM_ID row))
          \<lparr>a_OFF_RATING = fround fo (df_OFF_RATING row) 1,
           a_DEF_RATING = fround fo (df_DEF_RATING row) 1,
           a_NET_RATING = fround fo (df_NET_RATING row) 1,
           a_AST_PCT = fround fo (df_AST_PCT row) 3,
           a_REB_PCT = fround fo (df_REB_PCT row) 3,
           a_TS_PCT = fround fo (df_TS_PCT row) 3,
           a_PACE = fround fo (df_PACE row) 2\<rparr>)"

section \<open>The world of a run\<close>

text \<open>
  What the program prints is kept as one message per \<open>print\<close> group, with the values
  that are formatted into it.
\<close>

datatype msg =
    Banner
  | FetchingStandings
  | StandingsFetched nat
  | FetchingAdvanced
  | AdvancedFetched nat
  | Skipping string
  | Saved string nat
  | PreviewHeader
  | PreviewRow string pyfloat pyfloat pyfloat pyfloat
  | PreviewMore nat
  | ApiCallFailed string
  | PossibleCauses
  | NoRowsProduced
  | ReadyForUpload string

datatype endpoint = LeagueStandingsV3 | LeagueDashTeamStats

datatype event = Print msg | Sleep | Request endpoint

text \<open>
  The world holds what the two endpoints answer to a request (an exception or a data
  frame), the files by path, which paths \<open>open(path, "w")\<close> can open and the exception it
  raises for the others, and the trace of what the run has done so far.
\<close>

record world =
  standings_response :: "exn + standings_frame_row list"
  advanced_response :: "exn + advanced_frame_row list"
  files :: "string \<rightharpoonup> string"
  can_open :: "string \<Rightarrow> bool"
  open_error :: "string \<Rightarrow> exn"
  trace :: "event list"

definition emit :: "event \<Rightarrow> world \<Rightarrow> world" where
  "emit e w = w\<lparr>trace := trace w @ [e]\<rparr>"

definition emits :: "event list \<Rightarrow> world \<Rightarrow> world" where
  "emits es w = w\<lparr>trace := trace w @ es\<rparr>"

text \<open>
  The two endpoint classes of the package \<open>nba_api\<close>. Their constructors take the keyword
  parameters listed here and no others (there is no \<open>**kwargs\<close>); called with another
  keyword, Python raises TypeError before the constructor runs, so before anything is
  requested.
\<close>

fun endpoint_name :: "endpoint \<Rightarrow> string" where
  "endpoint_name LeagueStandingsV3 = ''LeagueStandingsV3''"
| "endpoint_name LeagueDashTeamStats = ''LeagueDashTeamStats''"

fun endpoint_parameters :: "endpoint \<Rightarrow> string list" where
  "endpoint_parameters LeagueStandingsV3 =
     [''league_id'', ''season'', ''season_type'', ''season_nullable'',
      ''proxy'', ''headers'', ''timeout'', ''get_request'']"
| "endpoint_parameters LeagueDashTeamStats =
     [''last_n_games'', ''measure_type_detailed_defense'', ''month'', ''opponent_team_id'',
      ''pace_adjust'', ''per_mode_detailed'', ''period'', ''plus_minus'', ''rank'',
      ''season'', ''season_type_all_star'', ''conference_nullable'', ''date_from_nullable'',
      ''date_to_nullable'', ''division_simple_nullable'', ''game_scope_simple_nullable'',
      ''game_segment_nullable'', ''league_id_nullable'', ''location_nullable'',
      ''outcome_nullable'', ''po_round_nullable'', ''player_experience_nullable'',
      ''player_position_abbreviation_nullable'', ''season_segment_nullable'',
      ''shot_clock_range_nullable'', ''starter_bench_nullable'', ''team_id_nullable'',
      ''two_way_nullable'', ''vs_conference_nullable'', ''vs_division_nullable'',
      ''proxy'', ''headers'', ''timeout'', ''get_request'']"

definition TypeError :: "string \<Rightarrow> exn" where
  "TypeError m = PyException ''TypeError'' m"

definition unexpected_keyword :: "endpoint \<Rightarrow> string list \<Rightarrow> exn option" where
  "unexpected_keyword ep keywords =
     (case find (\<lambda>k. k \<notin> set (endpoint_parameters ep)) keywords of
        None \<Rightarrow> None
      | Some k \<Rightarrow>
          Some (TypeError (endpoint_name ep @ ''.__init__() got an unexpected keyword argument ''
                           @ [CHR 0x27] @ k @ [CHR 0x27])))"

text \<open>
  Lines 57 to 82. The call of lines 60 to 64 passes \<open>season\<close>, \<open>season_type\<close> and
  \<open>timeout\<close>.
\<close>

definition fetch_standings ::
  "float_ops \<Rightarrow> world \<Rightarrow> (exn + (string, standing) dict) \<times> world"
where
  "fetch_standings fo w =
     (let w1 = emit Sleep (emit (Print FetchingStandings) w)
      in case unexpected_keyword LeagueStandingsV3 [''season'', ''season_type'', ''timeout''] of
           Some e \<Rightarrow> (Inl e, w1)
         | None \<Rightarrow>
             (let w2 = emit (Request LeagueStandingsV3) w1
              in case standings_response w2 of
                   Inl e \<Rightarrow> (Inl e, w2)
                 | Inr df \<Rightarrow>
                     (case standings_loop fo df [] of
                        Inl e \<Rightarrow> (Inl e, w2)
                      | Inr standings \<Rightarrow>
                          (Inr standings,
                           emit (Print (StandingsFetched (length standings))) w2))))"

text \<open>
  Lines 90 to 118. The call of lines 93 to 99 passes \<open>season\<close>, \<open>season_type_all_star\<close>,
  \<open>measure_type_detailed_defense\<close>, \<open>per_mode_simple\<close> and \<open>timeout\<close>.
\<close>

definition fetch_advanced_stats ::
  "float_ops \<Rightarrow> world \<Rightarrow> (exn + (string, advanced) dict) \<times> world"
where
  "fetch_advanced_stats fo w =
     (let w1 = emit Sleep (emit (Print FetchingAdvanced) w)
      in case unexpected_keyword LeagueDashTeamStats
                [''season'', ''season_type_all_star'', ''measure_type_detailed_defense'',
                 ''per_mode_simple'', ''timeout''] of
           Some e \<Rightarrow> (Inl e, w1)
         | None \<Rightarrow>
             (let w2 = emit (Request LeagueDashTeamStats) w1
              in case advanced_response w2 of
                   Inl e \<Rightarrow> (Inl e, w2)
                 | Inr df \<Rightarrow>
                     (let stats = advanced_loop fo df []
                      in (Inr stats, emit (Print (AdvancedFetched (length stats))) w2))))"

section \<open>Row builder\<close>

definition merge_row :: "string \<Rightarrow> standing \<Rightarrow> advanced \<Rightarrow> merged_row" where
  "merge_row tid s adv =
     \<lparr>TEAM_ID = tid,
      TEAM_NAME = s_TEAM_NAME s,
      W_PCT = s_W_PCT s,
      OFF_RATING = a_OFF_RATING adv,
      DEF_RATING = a_DEF_RATING adv,
      NET_RATING = a_NET_RATING adv,
      AST_PCT = a_AST_PCT adv,
      REB_PCT = a_REB_PCT adv,
      TS_PCT = a_TS_PCT adv,
      PACE = a_PACE adv,
      Season = SEASON\<rparr>"

text \<open>
  Lines 125 to 143: the loop over \<open>standings.items()\<close>, with the rows appended so far and
  the warnings printed so far. \<open>advanced[tid]\<close> raises KeyError on a missing key.
\<close>

fun build_loop ::
  "(string, standing) dict \<Rightarrow> (string, advanced) dict \<Rightarrow> merged_row list \<Rightarrow> msg list
     \<Rightarrow> exn + merged_row list \<times> msg list"
where
  "build_loop [] advanced rows out = Inr (rows, out)"
| "build_loop ((tid, s) # items) advanced rows out =
     (if \<not> dict_contains advanced tid
      then build_loop items advanced rows (out @ [Skipping (s_TEAM_NAME s)])
      else case dict_getitem advanced tid of
             Inl e \<Rightarrow> Inl e
           | Inr adv \<Rightarrow> build_loop items advanced (rows @ [merge_row tid s adv]) out)"

text \<open>\<open>rows.sort(key=...)\<close> is a stable sort, as \<open>sort_key\<close> is.\<close>

definition build_rows ::
  "(string, standing) dict \<Rightarrow> (string, advanced) dict \<Rightarrow> exn + merged_row list \<times> msg list"
where
  "build_rows standings advanced =
     (case build_loop standings advanced [] [] of
        Inl e \<Rightarrow> Inl e
      | Inr (rows, out) \<Rightarrow> Inr (sort_key TEAM_NAME rows, out))"

section \<open>CSV writer\<close>

text \<open>
  \<open>csv.DictWriter\<close> with the default dialect: fields joined by a comma, a record ended by
  CR LF, a field quoted when it holds the delimiter, the quote character, CR or LF, and
  a quote character inside a quoted field doubled.
\<close>

definition quotechar :: char where
  "quotechar = CHR 0x22"

definition lineterminator :: string where
  "lineterminator = [CHR 0x0D, CHR 0x0A]"

definition needs_quote :: "string \<Rightarrow> bool" where
  "needs_quote s = (\<exists>c \<in> set s. c = CHR '','' \<or> c = quotechar \<or> c \<in> set lineterminator)"

definition csv_field :: "string \<Rightarrow> string" where
  "csv_field s =
     (if needs_quote s
      then [quotechar] @ concat (map (\<lambda>c. if c = quotechar then [c, c] else [c]) s) @ [quotechar]
      else s)"

fun join_fields :: "string list \<Rightarrow> string" where
  "join_fields [] = []"
| "join_fields [f] = f"
| "join_fields (f # fs) = f @ '','' @ join_fields fs"

definition csv_record :: "string list \<Rightarrow> string" where
  "csv_record cells = join_fields (map csv_field cells) @ lineterminator"

definition ValueError :: "string \<Rightarrow> exn" where
  "ValueError m = PyException ''ValueError'' m"

text \<open>The dict that \<open>build_rows\<close> appends (lines 131 to 143), as \<open>DictWriter\<close> reads it.\<close>

definition row_dict :: "merged_row \<Rightarrow> (string, pyval) dict" where
  "row_dict r =
     [(''TEAM_ID'', PStr (TEAM_ID r)),
      (''TEAM_NAME'', PStr (TEAM_NAME r)),
      (''W_PCT'', PFloat (W_PCT r)),
      (''OFF_RATING'', PFloat (OFF_RATING r)),
      (''DEF_RATING'', PFloat (DEF_RATING r)),
      (''NET_RATING'', PFloat (NET_RATING r)),
      (''AST_PCT'', PFloat (AST_PCT r)),
      (''REB_PCT'', PFloat (REB_PCT r)),
      (''TS_PCT'', PFloat (TS_PCT r)),
      (''PACE'', PFloat (PACE r)),
      (''Season'', PStr (Season r))]"

text \<open>
  \<open>DictWriter._dict_to_list\<close> with \<open>extrasaction = "raise"\<close> and \<open>restval = ""\<close>.
\<close>

definition dict_to_list :: "(string, pyval) dict \<Rightarrow> exn + pyval list" where
  "dict_to_list rowdict =
     (if \<exists>item \<in> set rowdict. fst item \<notin> set CSV_COLUMNS
      then Inl (ValueError ''dict contains fields not in fieldnames'')
      else Inr (map (\<lambda>key. case map_of rowdict key of None \<Rightarrow> PStr [] | Some v \<Rightarrow> v) CSV_COLUMNS))"

definition writerow :: "(string, pyval) dict \<Rightarrow> string \<Rightarrow> exn option \<times> string" where
  "writerow rowdict f =
     (case dict_to_list rowdict of
        Inl e \<Rightarrow> (Some e, f)
      | Inr vals \<Rightarrow> (None, f @ csv_record (map str_val vals)))"

definition writeheader :: "string \<Rightarrow> exn option \<times> string" where
  "writeheader f = writerow (zip CSV_COLUMNS (map PStr CSV_COLUMNS)) f"

fun writerows :: "merged_row list \<Rightarrow> string \<Rightarrow> exn option \<times> string" where
  "writerows [] f = (None, f)"
| "writerows (r # rows) f =
     (case writerow (row_dict r) f of
        (Some e, f') \<Rightarrow> (Some e, f')
      | (None, f') \<Rightarrow> writerows rows f')"

text \<open>
  Lines 149 to 154. When the file cannot be opened, \<open>open\<close> raises what the world says
  (a FileNotFoundError, a PermissionError, ...). The file is truncated when it is opened
  and holds what was written when the \<open>with\<close> block is left, also when it is left by an
  exception.
\<close>

definition write_csv :: "merged_row list \<Rightarrow> string \<Rightarrow> world \<Rightarrow> (exn + unit) \<times> world" where
  "write_csv rows filepath w =
     (if \<not> can_open w filepath then (Inl (open_error w filepath), w)
      else case writeheader [] of
             (Some e, f) \<Rightarrow> (Inl e, w\<lparr>files := (files w)(filepath \<mapsto> f)\<rparr>)
           | (None, f) \<Rightarrow>
               (case writerows rows f of
                  (Some e, f') \<Rightarrow> (Inl e, w\<lparr>files := (files w)(filepath \<mapsto> f')\<rparr>)
                | (None, f') \<Rightarrow>
                    (Inr (), emit (Print (Saved filepath (length rows)))
                               (w\<lparr>files := (files w)(filepath \<mapsto> f')\<rparr>))))"

section \<open>Preview reporter\<close>

definition preview :: "merged_row list \<Rightarrow> world \<Rightarrow> world" where
  "preview rows w =
     emits
       ([Print PreviewHeader] @
        map (\<lambda>r. Print (PreviewRow (TEAM_NAME r) (W_PCT r) (NET_RATING r) (DEF_RATING r) (PACE r)))
          (take 5 rows) @
        (if 5 < length rows then [Print (PreviewMore (length rows - 5))] else []))
       w"

section \<open>Orchestrator\<close>

text \<open>
  How the process ends: \<open>sys.exit(n)\<close> or the end of \<open>main\<close> (status 0), or an exception
  that nothing catches.
\<close>

datatype exit_status = Exit nat | Uncaught exn

definition api_call_failed :: "exn \<Rightarrow> world \<Rightarrow> exit_status \<times> world" where
  "api_call_failed e w =
     (Exit 1, emit (Print PossibleCauses) (emit (Print (ApiCallFailed (exn_text e))) w))"

text \<open>
  Lines 167 to 198; \<open>output\<close> is the value of the option \<open>--output\<close> when it is given.
\<close>

definition main :: "float_ops \<Rightarrow> string option \<Rightarrow> world \<Rightarrow> exit_status \<times> world" where
  "main fo output w =
     (let filepath = (case output of None \<Rightarrow> OUTPUT_FILE | Some path \<Rightarrow> path);
          w0 = emit (Print Banner) w
      in case fetch_standings fo w0 of
           (Inl e, w1) \<Rightarrow> api_call_failed e w1
         | (Inr standings, w1) \<Rightarrow>
             (case fetch_advanced_stats fo w1 of
                (Inl e, w2) \<Rightarrow> api_call_failed e w2
              | (Inr advanced, w2) \<Rightarrow>
                  (case build_rows standings advanced of
                     Inl e \<Rightarrow> (Uncaught e, w2)
                   | Inr (rows, out) \<Rightarrow>
                       (let w3 = emits (map Print out) w2
                        in if rows = [] then (Exit 1, emit (Print NoRowsProduced) w3)
                           else case write_csv rows filepath w3 of
                                  (Inl e, w4) \<Rightarrow> (Uncaught e, w4)
                                | (Inr u, w4) \<Rightarrow>
                                    (Exit 0, emit (Print (ReadyForUpload filepath)) (preview rows w4))))))"

section \<open>Observing a run\<close>

text \<open>What a run that took the world from \<open>w\<close> to \<open>w'\<close> has added to the trace.\<close>

definition new_events :: "world \<Rightarrow> world \<Rightarrow> event list" where
  "new_events w w' = drop (length (trace w)) (trace w')"

section \<open>Example inputs\<close>

definition example_standings :: "(string, standing) dict" where
  "example_standings = [(''1'', \<lparr>s_TEAM_NAME = ''Alpha'', s_W_PCT = PyFinite False [6] 0\<rparr>)]"

text \<open>The floats 110.0, 105.0, 5.0, 0.2, 0.5, 0.55 and 98.0.\<close>

definition example_stats :: advanced where
  "example_stats =
     \<lparr>a_OFF_RATING = PyFinite False [1, 1] 3,
      a_DEF_RATING = PyFinite False [1, 0, 5] 3,
      a_NET_RATING = PyFinite False [5] 1,
      a_AST_PCT = PyFinite False [2] 0,
      a_REB_PCT = PyFinite False [5] 0,
      a_TS_PCT = PyFinite False [5, 5] 0,
      a_PACE = PyFinite False [9, 8] 2\<rparr>"

definition example_advanced :: "(string, advanced) dict" where
  "example_advanced = [(''1'', example_stats)]"

text \<open>Three teams in the standings, of which team 2 has no advanced stats.\<close>

definition league_standings :: "(string, standing) dict" where
  "league_standings =
     [(''3'', \<lparr>s_TEAM_NAME = ''Gamma'', s_W_PCT = PyFinite False [5] 0\<rparr>),
      (''2'', \<lparr>s_TEAM_NAME = ''Beta'', s_W_PCT = PyFinite False [2, 5] 0\<rparr>),
      (''1'', \<lparr>s_TEAM_NAME = ''Alpha'', s_W_PCT = PyFinite False [6] 0\<rparr>)]"

definition league_advanced :: "(string, advanced) dict" where
  "league_advanced = [(''1'', example_stats), (''3'', example_stats), (''4'', example_stats)]"

text \<open>
  A world whose standings hold the single team 2 and whose advanced stats hold no team,
  a world whose standings request fails, and a world whose standings hold a team with
  two wins and one loss and a team that has not played.
\<close>

definition example_world :: world where
  "example_world =
     \<lparr>standings_response =
        Inr [\<lparr>df_TEAMID = 2, df_WINS = 41, df_LOSSES = 41, df_TEAMNAME = ''Beta''\<rparr>],
      advanced_response = Inr [],
      files = Map.empty,
      can_open = (\<lambda>path. path \<noteq> []),
      open_error =
        (\<lambda>path. PyException ''FileNotFoundError''
                  (''[Errno 2] No such file or directory: '' @ [CHR 0x27] @ path @ [CHR 0x27])),
      trace = []\<rparr>"

definition offline_world :: world where
  "offline_world =
     example_world\<lparr>standings_response := Inl (PyException ''ReadTimeout'' ''Read timed out.'')\<rparr>"

definition opening_week_world :: world where
  "opening_week_world =
     example_world\<lparr>standings_response :=
       Inr [\<lparr>df_TEAMID = 1, df_WINS = 2, df_LOSSES = 1, df_TEAMNAME = ''Alpha''\<rparr>,
            \<lparr>df_TEAMID = 2, df_WINS = 0, df_LOSSES = 0, df_TEAMNAME = ''Beta''\<rparr>]\<rparr>"

section \<open>Properties\<close>

lemma float_overflow_bound_ge2: "2 \<le> float_overflow_bound"
  unfolding float_overflow_bound_def by simp

lemma truediv_fraction:
  assumes "0 \<le> a" and "a \<le> b" and "0 < b"
  shows "truediv fo a b = Inr (fdiv fo a b)"
proof -
  have "2 * b \<le> float_overflow_bound * b"
    using float_overflow_bound_ge2 assms(3) by (simp add: mult_right_mono)
  then have "a < float_overflow_bound * b"
    using assms by linarith
  then have "\<not> float_overflow_bound * \<bar>b\<bar> \<le> \<bar>a\<bar>"
    using assms by simp
  then show ?thesis
    using assms(3) by (simp add: truediv_def)
qed

subsection \<open>Text of numbers\<close>

lemma digit_char_values:
  "digit_char 0 = CHR ''0''" "digit_char 1 = CHR ''1''" "digit_char 2 = CHR ''2''"
  "digit_char 3 = CHR ''3''" "digit_char 4 = CHR ''4''" "digit_char 5 = CHR ''5''"
  "digit_char 6 = CHR ''6''" "digit_char 7 = CHR ''7''" "digit_char 8 = CHR ''8''"
  "digit_char 9 = CHR ''9''" "digit_char (Suc 0) = CHR ''1''"
  by code_simp+

subsection \<open>Win percentage\<close>

lemma w_pct_nonneg:
  assumes "0 \<le> w" and "0 \<le> l"
  shows "w_pct fo w l =
           Inr (if 0 < w + l then fround fo (fdiv fo w (w + l)) 3 else float_zero)"
proof (cases "0 < w + l")
  case True
  then have "truediv fo w (w + l) = Inr (fdiv fo w (w + l))"
    using assms by (intro truediv_fraction) simp_all
  with True show ?thesis by (simp add: w_pct_def)
next
  case False
  then show ?thesis by (simp add: w_pct_def)
qed

lemma w_pct_no_zero_division: "w_pct fo w l \<noteq> Inl ZeroDivisionError"
  by (simp add: w_pct_def truediv_def ZeroDivisionError_def OverflowError_def)

subsection \<open>Calls of the endpoints\<close>

text \<open>
  The call of lines 60 to 64 passes only parameters of \<open>LeagueStandingsV3\<close>. The call of
  lines 93 to 99 passes \<open>per_mode_simple\<close>, which is no parameter of \<open>LeagueDashTeamStats\<close>
  (its per-mode parameter is \<open>per_mode_detailed\<close>), and raises TypeError.
\<close>

lemma standings_keywords:
  "unexpected_keyword LeagueStandingsV3 [''season'', ''season_type'', ''timeout''] = None"
  by (simp add: unexpected_keyword_def)

lemma advanced_keywords:
  "unexpected_keyword LeagueDashTeamStats
     [''season'', ''season_type_all_star'', ''measure_type_detailed_defense'',
      ''per_mode_simple'', ''timeout''] =
   Some (TypeError (''LeagueDashTeamStats.__init__() got an unexpected keyword argument ''
                    @ [CHR 0x27] @ ''per_mode_simple'' @ [CHR 0x27]))"
  by (simp add: unexpected_keyword_def)

subsection \<open>Dictionaries built by the fetchers\<close>

lemma dict_keys_map_of: "k \<in> dict_keys d \<Longrightarrow> \<exists>v. map_of d k = Some v"
  unfolding dict_keys_def by (metis map_of_eq_None_iff not_Some_eq)

lemma dict_keys_dict_set: "dict_keys (dict_set d k v) = insert k (dict_keys d)"
  by (induction d) (auto simp add: dict_keys_def)

lemma is_dict_dict_set: "is_dict d \<Longrightarrow> is_dict (dict_set d k v)"
proof (induction d)
  case Nil
  then show ?case by (simp add: is_dict_def)
next
  case (Cons item d)
  have "fst ` set (dict_set d k v) = insert k (fst ` set d)"
    using dict_keys_dict_set [of d k v] by (simp add: dict_keys_def)
  with Cons show ?case
    by (auto simp add: is_dict_def)
qed

lemma is_dict_standings_loop:
  "is_dict standings \<Longrightarrow> standings_loop fo df standings = Inr d \<Longrightarrow> is_dict d"
proof (induction df arbitrary: standings)
  case Nil
  then show ?case by simp
next
  case (Cons row df)
  from Cons.prems(2) obtain p where
    "standings_loop fo df
       (dict_set standings (str_int (df_TEAMID row))
          \<lparr>s_TEAM_NAME = df_TEAMNAME row, s_W_PCT = p\<rparr>) = Inr d"
    by (auto simp add: Let_def split: sum.splits)
  then show ?case
    using Cons.IH is_dict_dict_set [OF Cons.prems(1)] by blast
qed

lemma is_dict_advanced_loop: "is_dict stats \<Longrightarrow> is_dict (advanced_loop fo df stats)"
  by (induction df arbitrary: stats) (simp_all add: is_dict_dict_set)

lemma is_dict_filter: "is_dict d \<Longrightarrow> is_dict (filter P d)"
  unfolding is_dict_def by (simp add: distinct_map_filter)

lemma is_dict_card: "is_dict d \<Longrightarrow> card (dict_keys d) = length d"
  unfolding is_dict_def dict_keys_def
  by (metis distinct_card length_map set_map)

subsection \<open>Standings fetcher\<close>

lemma map_of_dict_set: "map_of (dict_set d k v) = (map_of d)(k \<mapsto> v)"
  by (induction d) auto

lemma standings_loop_no_zero_division:
  "standings_loop fo df standings \<noteq> Inl ZeroDivisionError"
proof (induction df arbitrary: standings)
  case Nil
  then show ?case by simp
next
  case (Cons row df)
  show ?case
  proof (cases "w_pct fo (df_WINS row) (df_LOSSES row)")
    case (Inl e)
    then have "e \<noteq> ZeroDivisionError"
      using w_pct_no_zero_division [of fo "df_WINS row" "df_LOSSES row"] by auto
    with Inl show ?thesis by (simp add: Let_def)
  next
    case (Inr p)
    then show ?thesis using Cons.IH by (simp add: Let_def)
  qed
qed

text \<open>
  With no negative count in the frame the loop returns, and the dict it returns is the one
  it was given, overwritten by the entries of the rows of the frame in their order.
\<close>

lemma standings_loop_map:
  assumes "\<forall>row \<in> set df. 0 \<le> df_WINS row \<and> 0 \<le> df_LOSSES row"
  shows "\<exists>d. standings_loop fo df standings = Inr d \<and>
           map_of d = map_of standings ++
             map_of (rev (map (\<lambda>row. (str_int (df_TEAMID row),
                \<lparr>s_TEAM_NAME = df_TEAMNAME row,
                 s_W_PCT = (if 0 < df_WINS row + df_LOSSES row
                            then fround fo (fdiv fo (df_WINS row) (df_WINS row + df_LOSSES row)) 3
                            else float_zero)\<rparr>)) df))"
  using assms
proof (induction df arbitrary: standings)
  case Nil
  then show ?case by simp
next
  case (Cons row df)
  let ?entry = "\<lambda>row. (str_int (df_TEAMID row),
      \<lparr>s_TEAM_NAME = df_TEAMNAME row,
       s_W_PCT = (if 0 < df_WINS row + df_LOSSES row
                  then fround fo (fdiv fo (df_WINS row) (df_WINS row + df_LOSSES row)) 3
                  else float_zero)\<rparr>)"
  have pct: "w_pct fo (df_WINS row) (df_LOSSES row) = Inr (s_W_PCT (snd (?entry row)))"
    using Cons.prems by (simp add: w_pct_nonneg)
  have rest: "\<forall>row \<in> set df. 0 \<le> df_WINS row \<and> 0 \<le> df_LOSSES row"
    using Cons.prems by simp
  obtain d where d: "standings_loop fo df (dict_set standings (fst (?entry row)) (snd (?entry row))) = Inr d"
    and m: "map_of d = map_of (dict_set standings (fst (?entry row)) (snd (?entry row))) ++
              map_of (rev (map ?entry df))"
    using Cons.IH [OF rest] by blast
  have "standings_loop fo (row # df) standings = Inr d"
    using pct d by (simp add: Let_def)
  moreover have "map_of d = map_of standings ++ map_of (rev (map ?entry (row # df)))"
    by (simp add: m map_of_dict_set)
  ultimately show ?case
    by blast
qed

text \<open>
  C1: when the standings request answers with a data frame, the standings fetcher does
  not raise ZeroDivisionError, whatever the counts in the frame are; and when no count in
  the frame is negative it returns a dict in which every team id of the frame has the
  entry of the last row with this id: the team name of the row and, for its wins \<open>w\<close>
  and losses \<open>l\<close>, the win percentage \<open>round(w / (w + l), 3)\<close> when \<open>w + l > 0\<close> and
  \<open>0.0\<close> when \<open>w + l = 0\<close>. (In \<open>map_of (rev items)\<close> the last item with a key is the
  one that counts.)
\<close>

theorem fetch_standings_w_pct:
  assumes "standings_response w = Inr df"
  shows "fst (fetch_standings fo w) \<noteq> Inl ZeroDivisionError \<and>
         ((\<forall>row \<in> set df. 0 \<le> df_WINS row \<and> 0 \<le> df_LOSSES row) \<longrightarrow>
          (\<exists>standings. fst (fetch_standings fo w) = Inr standings \<and>
             map_of standings =
               map_of (rev (map (\<lambda>row. (str_int (df_TEAMID row),
                  \<lparr>s_TEAM_NAME = df_TEAMNAME row,
                   s_W_PCT = (if 0 < df_WINS row + df_LOSSES row
                              then fround fo (fdiv fo (df_WINS row) (df_WINS row + df_LOSSES row)) 3
                              else float_zero)\<rparr>)) df))))"
proof (intro conjI impI)
  have "fst (fetch_standings fo w) = standings_loop fo df []"
    using assms
    by (simp add: fetch_standings_def standings_keywords emit_def Let_def split: sum.splits)
  then show "fst (fetch_standings fo w) \<noteq> Inl ZeroDivisionError"
    by (simp add: standings_loop_no_zero_division)
next
  assume nonneg: "\<forall>row \<in> set df. 0 \<le> df_WINS row \<and> 0 \<le> df_LOSSES row"
  have run: "fst (fetch_standings fo w) = standings_loop fo df []"
    using assms
    by (simp add: fetch_standings_def standings_keywords emit_def Let_def split: sum.splits)
  show "\<exists>standings. fst (fetch_standings fo w) = Inr standings \<and>
          map_of standings =
            map_of (rev (map (\<lambda>row. (str_int (df_TEAMID row),
               \<lparr>s_TEAM_NAME = df_TEAMNAME row,
                s_W_PCT = (if 0 < df_WINS row + df_LOSSES row
                           then fround fo (fdiv fo (df_WINS row) (df_WINS row + df_LOSSES row)) 3
                           else float_zero)\<rparr>)) df))"
    using standings_loop_map [OF nonneg, of fo "[]"] by (simp add: run)
qed

theorem fetch_standings_w_pct_witness:
  "standings_response opening_week_world =
     Inr [\<lparr>df_TEAMID = 1, df_WINS = 2, df_LOSSES = 1, df_TEAMNAME = ''Alpha''\<rparr>,
          \<lparr>df_TEAMID = 2, df_WINS = 0, df_LOSSES = 0, df_TEAMNAME = ''Beta''\<rparr>] \<and>
   (\<exists>standings. fst (fetch_standings example_float_ops opening_week_world) = Inr standings \<and>
      map_of standings ''1'' =
        Some \<lparr>s_TEAM_NAME = ''Alpha'', s_W_PCT = PyFinite False [6, 6, 7] 0\<rparr> \<and>
      map_of standings ''2'' = Some \<lparr>s_TEAM_NAME = ''Beta'', s_W_PCT = float_zero\<rparr>)"
proof -
  let ?df = "[\<lparr>df_TEAMID = 1, df_WINS = 2, df_LOSSES = 1, df_TEAMNAME = ''Alpha''\<rparr>,
              \<lparr>df_TEAMID = 2, df_WINS = 0, df_LOSSES = 0, df_TEAMNAME = ''Beta''\<rparr>]"
  have frame: "standings_response opening_week_world = Inr ?df"
    by (simp add: opening_week_world_def example_world_def)
  have nonneg: "\<forall>row \<in> set ?df. 0 \<le> df_WINS row \<and> 0 \<le> df_LOSSES row"
    by simp
  obtain standings where
    run: "fst (fetch_standings example_float_ops opening_week_world) = Inr standings"
    and m: "map_of standings =
      map_of (rev (map (\<lambda>row. (str_int (df_TEAMID row),
         \<lparr>s_TEAM_NAME = df_TEAMNAME row,
          s_W_PCT = (if 0 < df_WINS row + df_LOSSES row
                     then fround example_float_ops
                            (fdiv example_float_ops (df_WINS row) (df_WINS row + df_LOSSES row)) 3
                     else float_zero)\<rparr>)) ?df))"
    using fetch_standings_w_pct [OF frame, of example_float_ops] nonneg by blast
  have ids: "str_int 1 = ''1''" "str_int 2 = ''2''"
    by (simp_all add: str_int_def str_nat.simps digit_char_values)
  have "map_of standings ''1'' =
          Some \<lparr>s_TEAM_NAME = ''Alpha'', s_W_PCT = PyFinite False [6, 6, 7] 0\<rparr>"
    by (simp add: m ids example_float_ops_def two_thirds_def)
  moreover have "map_of standings ''2'' = Some \<lparr>s_TEAM_NAME = ''Beta'', s_W_PCT = float_zero\<rparr>"
    by (simp add: m ids)
  ultimately show ?thesis
    using frame run by simp
qed

subsection \<open>Row builder\<close>

text \<open>
  The loop never fails: it appends the merged rows of the matched teams to \<open>rows\<close> and
  the warnings for the others to \<open>out\<close>, both in the order of the standings.
\<close>

lemma build_loop_eq:
  "build_loop items advanced rows out =
     Inr (rows @ map (\<lambda>(tid, s). merge_row tid s (the (map_of advanced tid)))
                   (filter (\<lambda>(tid, s). tid \<in> dict_keys advanced) items),
          out @ map (\<lambda>(tid, s). Skipping (s_TEAM_NAME s))
                  (filter (\<lambda>(tid, s). tid \<notin> dict_keys advanced) items))"
proof (induction items arbitrary: rows out)
  case Nil
  then show ?case by simp
next
  case (Cons item items)
  obtain tid s where item: "item = (tid, s)" by (cases item)
  show ?case
  proof (cases "tid \<in> dict_keys advanced")
    case True
    then obtain adv where "map_of advanced tid = Some adv"
      using dict_keys_map_of by fastforce
    with True show ?thesis
      by (simp add: item Cons.IH dict_contains_def dict_getitem_def)
  next
    case False
    then show ?thesis
      by (simp add: item Cons.IH dict_contains_def)
  qed
qed

lemma build_rows_eq:
  "build_rows standings advanced =
     Inr (sort_key TEAM_NAME
            (map (\<lambda>(tid, s). merge_row tid s (the (map_of advanced tid)))
               (filter (\<lambda>(tid, s). tid \<in> dict_keys advanced) standings)),
          map (\<lambda>(tid, s). Skipping (s_TEAM_NAME s))
            (filter (\<lambda>(tid, s). tid \<notin> dict_keys advanced) standings))"
  by (simp add: build_rows_def build_loop_eq)

lemma TEAM_ID_merge_row [simp]: "TEAM_ID (merge_row tid s adv) = tid"
  by (simp add: merge_row_def)

lemma map_TEAM_ID_joined:
  "map TEAM_ID (map (\<lambda>(tid, s). merge_row tid s (f tid)) items) = map fst items"
  by (induction items) auto

lemma keys_of_matching:
  "fst ` set (filter (\<lambda>(tid, s). tid \<in> K) items) = fst ` set items \<inter> K"
  by force

lemma distinct_map_sort_key:
  "distinct (map f (sort_key k xs)) = distinct (map f xs)"
  by (simp add: distinct_map)

lemma league_rows:
  "build_rows league_standings league_advanced =
     Inr ([merge_row ''1'' \<lparr>s_TEAM_NAME = ''Alpha'', s_W_PCT = PyFinite False [6] 0\<rparr> example_stats,
           merge_row ''3'' \<lparr>s_TEAM_NAME = ''Gamma'', s_W_PCT = PyFinite False [5] 0\<rparr> example_stats],
          [Skipping ''Beta''])"
  by (simp add: build_rows_def league_standings_def league_advanced_def dict_contains_def
        dict_keys_def dict_getitem_def merge_row_def)

lemma is_dict_league: "is_dict league_standings" "is_dict league_advanced"
  by (simp_all add: is_dict_def league_standings_def league_advanced_def)

text \<open>
  C2: for dicts \<open>standings\<close> and \<open>advanced\<close> the Row Builder returns as many rows as there
  are team ids present in both, hence at most \<open>min(|standings|, |advanced|)\<close>.
\<close>

theorem build_rows_count:
  assumes "is_dict standings" and "is_dict advanced"
  shows "\<exists>rows out. build_rows standings advanced = Inr (rows, out) \<and>
           length rows = card (dict_keys standings \<inter> dict_keys advanced) \<and>
           length rows \<le> min (length standings) (length advanced)"
proof -
  let ?m = "filter (\<lambda>(tid, s). tid \<in> dict_keys advanced) standings"
  have keys: "dict_keys ?m = dict_keys standings \<inter> dict_keys advanced"
    unfolding dict_keys_def by (rule keys_of_matching)
  have "card (dict_keys ?m) = length ?m"
    using assms(1) by (intro is_dict_card is_dict_filter)
  then have len: "length ?m = card (dict_keys standings \<inter> dict_keys advanced)"
    using keys by simp
  have "card (dict_keys standings \<inter> dict_keys advanced) \<le> card (dict_keys advanced)"
    by (intro card_mono) (simp_all add: dict_keys_def)
  then have le_adv: "length ?m \<le> length advanced"
    using len is_dict_card [OF assms(2)] by simp
  have le_std: "length ?m \<le> length standings"
    by simp
  show ?thesis
    using len le_adv le_std by (simp add: build_rows_eq)
qed

theorem build_rows_count_witness:
  "is_dict league_standings \<and> is_dict league_advanced \<and>
   card (dict_keys league_standings \<inter> dict_keys league_advanced) = 2 \<and>
   (\<exists>rows out. build_rows league_standings league_advanced = Inr (rows, out) \<and> length rows = 2)"
proof -
  obtain rows out where rows: "build_rows league_standings league_advanced = Inr (rows, out)"
    and len: "length rows = card (dict_keys league_standings \<inter> dict_keys league_advanced)"
    using build_rows_count [OF is_dict_league] by blast
  from rows have "length rows = 2"
    by (auto simp add: league_rows)
  with rows len is_dict_league show ?thesis
    by auto
qed

text \<open>
  C3: every row the Row Builder emits has a team id that is a key of the advanced-stats
  dict; a standings entry whose team id is not such a key gets a warning and no row, and
  the Row Builder returns normally.
\<close>

theorem build_rows_skips_unmatched:
  "\<exists>rows out. build_rows standings advanced = Inr (rows, out) \<and>
     (\<forall>r \<in> set rows. TEAM_ID r \<in> dict_keys advanced) \<and>
     (\<forall>(tid, s) \<in> set standings. tid \<notin> dict_keys advanced \<longrightarrow>
        Skipping (s_TEAM_NAME s) \<in> set out \<and> (\<forall>r \<in> set rows. TEAM_ID r \<noteq> tid))"
  by (force simp add: build_rows_eq)

theorem build_rows_skips_unmatched_witness:
  "\<exists>rows out. build_rows league_standings league_advanced = Inr (rows, out) \<and>
     rows \<noteq> [] \<and> (\<forall>r \<in> set rows. TEAM_ID r \<in> dict_keys league_advanced) \<and>
     (''2'', \<lparr>s_TEAM_NAME = ''Beta'', s_W_PCT = PyFinite False [2, 5] 0\<rparr>) \<in> set league_standings \<and>
     ''2'' \<notin> dict_keys league_advanced \<and>
     Skipping ''Beta'' \<in> set out \<and> (\<forall>r \<in> set rows. TEAM_ID r \<noteq> ''2'')"
proof -
  let ?beta = "\<lparr>s_TEAM_NAME = ''Beta'', s_W_PCT = PyFinite False [2, 5] 0\<rparr>"
  have beta: "(''2'', ?beta) \<in> set league_standings"
    by (simp add: league_standings_def)
  have absent: "''2'' \<notin> dict_keys league_advanced"
    by (simp add: league_advanced_def dict_keys_def)
  obtain rows out where rows: "build_rows league_standings league_advanced = Inr (rows, out)"
    and ids: "\<forall>r \<in> set rows. TEAM_ID r \<in> dict_keys league_advanced"
    and skipped: "\<forall>(tid, s) \<in> set league_standings. tid \<notin> dict_keys league_advanced \<longrightarrow>
        Skipping (s_TEAM_NAME s) \<in> set out \<and> (\<forall>r \<in> set rows. TEAM_ID r \<noteq> tid)"
    using build_rows_skips_unmatched [of league_standings league_advanced] by blast
  from skipped beta absent
  have "Skipping ''Beta'' \<in> set out \<and> (\<forall>r \<in> set rows. TEAM_ID r \<noteq> ''2'')"
    by fastforce
  moreover from rows have "rows \<noteq> []"
    by (auto simp add: league_rows)
  ultimately show ?thesis
    using rows ids beta absent by blast
qed

text \<open>
  C4: the rows the Row Builder returns are sorted by team name, ascending in the order of
  strings.
\<close>

theorem build_rows_sorted:
  "\<exists>rows out. build_rows standings advanced = Inr (rows, out) \<and> sorted (map TEAM_NAME rows)"
  by (simp add: build_rows_eq)

theorem build_rows_sorted_witness:
  "\<exists>rows out. build_rows league_standings league_advanced = Inr (rows, out) \<and>
     map TEAM_NAME rows = [''Alpha'', ''Gamma''] \<and> sorted (map TEAM_NAME rows)"
proof -
  obtain rows out where rows: "build_rows league_standings league_advanced = Inr (rows, out)"
    and sorted: "sorted (map TEAM_NAME rows)"
    using build_rows_sorted [of league_standings league_advanced] by blast
  from rows have "map TEAM_NAME rows = [''Alpha'', ''Gamma'']"
    by (auto simp add: league_rows merge_row_def)
  with rows sorted show ?thesis
    by auto
qed

text \<open>
  C9: the team ids of the rows the Row Builder returns are pairwise distinct, the
  standings being a dict (each key once).
\<close>

theorem build_rows_distinct_ids:
  assumes "is_dict standings"
  shows "\<exists>rows out. build_rows standings advanced = Inr (rows, out) \<and> distinct (map TEAM_ID rows)"
proof -
  let ?m = "filter (\<lambda>(tid, s). tid \<in> dict_keys advanced) standings"
  let ?rows = "map (\<lambda>(tid, s). merge_row tid s (the (map_of advanced tid))) ?m"
  have "distinct (map fst ?m)"
    using is_dict_filter [OF assms] by (simp add: is_dict_def)
  then have "distinct (map TEAM_ID ?rows)"
    by (simp only: map_TEAM_ID_joined [where f = "\<lambda>tid. the (map_of advanced tid)"])
  then have "distinct (map TEAM_ID (sort_key TEAM_NAME ?rows))"
    by (simp only: distinct_map_sort_key)
  then show ?thesis
    by (simp add: build_rows_eq)
qed

theorem build_rows_distinct_ids_witness:
  "is_dict league_standings \<and>
   (\<exists>rows out. build_rows league_standings league_advanced = Inr (rows, out) \<and>
      map TEAM_ID rows = [''1'', ''3''] \<and> distinct (map TEAM_ID rows))"
proof -
  obtain rows out where rows: "build_rows league_standings league_advanced = Inr (rows, out)"
    and ids: "distinct (map TEAM_ID rows)"
    using build_rows_distinct_ids [OF is_dict_league(1), of league_advanced] by blast
  from rows have "map TEAM_ID rows = [''1'', ''3'']"
    by (auto simp add: league_rows)
  with rows ids is_dict_league(1) show ?thesis
    by auto
qed

text \<open>
  C10: every row the Row Builder emits carries the team name and win percentage of a
  standings entry with its team id and the seven statistics of \<open>advanced[team id]\<close>, each
  unchanged, and the season \<open>2025-26\<close>.
\<close>

theorem build_rows_copies_fields:
  "\<exists>rows out. build_rows standings advanced = Inr (rows, out) \<and>
     (\<forall>r \<in> set rows. \<exists>s adv.
        (TEAM_ID r, s) \<in> set standings \<and> dict_getitem advanced (TEAM_ID r) = Inr adv \<and>
        TEAM_NAME r = s_TEAM_NAME s \<and> W_PCT r = s_W_PCT s \<and>
        OFF_RATING r = a_OFF_RATING adv \<and> DEF_RATING r = a_DEF_RATING adv \<and>
        NET_RATING r = a_NET_RATING adv \<and> AST_PCT r = a_AST_PCT adv \<and>
        REB_PCT r = a_REB_PCT adv \<and> TS_PCT r = a_TS_PCT adv \<and> PACE r = a_PACE adv \<and>
        Season r = ''2025-26'')"
proof -
  have "\<exists>s adv.
        (TEAM_ID r, s) \<in> set standings \<and> dict_getitem advanced (TEAM_ID r) = Inr adv \<and>
        TEAM_NAME r = s_TEAM_NAME s \<and> W_PCT r = s_W_PCT s \<and>
        OFF_RATING r = a_OFF_RATING adv \<and> DEF_RATING r = a_DEF_RATING adv \<and>
        NET_RATING r = a_NET_RATING adv \<and> AST_PCT r = a_AST_PCT adv \<and>
        REB_PCT r = a_REB_PCT adv \<and> TS_PCT r = a_TS_PCT adv \<and> PACE r = a_PACE adv \<and>
        Season r = ''2025-26''"
    if "r \<in> set (map (\<lambda>(tid, s). merge_row tid s (the (map_of advanced tid)))
               (filter (\<lambda>(tid, s). tid \<in> dict_keys advanced) standings))" for r
  proof -
    from that obtain tid s where ts: "(tid, s) \<in> set standings" "tid \<in> dict_keys advanced"
      and r: "r = merge_row tid s (the (map_of advanced tid))"
      by auto
    from ts(2) obtain adv where adv: "map_of advanced tid = Some adv"
      using dict_keys_map_of by fastforce
    show ?thesis
      apply (rule exI [of _ s], rule exI [of _ adv])
      using ts(1) adv by (simp add: r merge_row_def dict_getitem_def SEASON_def)
  qed
  then show ?thesis
    by (simp add: build_rows_eq)
qed

theorem build_rows_copies_fields_witness:
  "\<exists>rows out. build_rows league_standings league_advanced = Inr (rows, out) \<and>
     rows \<noteq> [] \<and>
     (\<forall>r \<in> set rows. \<exists>s adv.
        (TEAM_ID r, s) \<in> set league_standings \<and>
        dict_getitem league_advanced (TEAM_ID r) = Inr adv \<and>
        TEAM_NAME r = s_TEAM_NAME s \<and> W_PCT r = s_W_PCT s \<and>
        OFF_RATING r = a_OFF_RATING adv \<and> DEF_RATING r = a_DEF_RATING adv \<and>
        NET_RATING r = a_NET_RATING adv \<and> AST_PCT r = a_AST_PCT adv \<and>
        REB_PCT r = a_REB_PCT adv \<and> TS_PCT r = a_TS_PCT adv \<and> PACE r = a_PACE adv \<and>
        Season r = ''2025-26'')"
proof -
  obtain rows out where rows: "build_rows league_standings league_advanced = Inr (rows, out)"
    and copied: "\<forall>r \<in> set rows. \<exists>s adv.
        (TEAM_ID r, s) \<in> set league_standings \<and>
        dict_getitem league_advanced (TEAM_ID r) = Inr adv \<and>
        TEAM_NAME r = s_TEAM_NAME s \<and> W_PCT r = s_W_PCT s \<and>
        OFF_RATING r = a_OFF_RATING adv \<and> DEF_RATING r = a_DEF_RATING adv \<and>
        NET_RATING r = a_NET_RATING adv \<and> AST_PCT r = a_AST_PCT adv \<and>
        REB_PCT r = a_REB_PCT adv \<and> TS_PCT r = a_TS_PCT adv \<and> PACE r = a_PACE adv \<and>
        Season r = ''2025-26''"
    using build_rows_copies_fields [of league_standings league_advanced] by blast
  from rows have "rows \<noteq> []"
    by (auto simp add: league_rows)
  with rows copied show ?thesis
    by blast
qed

subsection \<open>CSV writer\<close>

text \<open>The row dict has exactly the keys of \<open>CSV_COLUMNS\<close>, so no ValueError is raised.\<close>

lemma dict_to_list_row_dict:
  "dict_to_list (row_dict r) =
     Inr [PStr (TEAM_ID r), PStr (TEAM_NAME r), PFloat (W_PCT r),
          PFloat (OFF_RATING r), PFloat (DEF_RATING r), PFloat (NET_RATING r),
          PFloat (AST_PCT r), PFloat (REB_PCT r), PFloat (TS_PCT r), PFloat (PACE r),
          PStr (Season r)]"
  by (simp add: dict_to_list_def row_dict_def CSV_COLUMNS_def)

lemma writerow_row_dict:
  "writerow (row_dict r) f =
     (None, f @ csv_record
        [TEAM_ID r, TEAM_NAME r, float_repr (W_PCT r),
         float_repr (OFF_RATING r), float_repr (DEF_RATING r), float_repr (NET_RATING r),
         float_repr (AST_PCT r), float_repr (REB_PCT r), float_repr (TS_PCT r),
         float_repr (PACE r), Season r])"
  by (simp add: writerow_def dict_to_list_row_dict)

lemma writerows_eq:
  "writerows rows f =
     (None, f @ concat (map (\<lambda>r. csv_record
        [TEAM_ID r, TEAM_NAME r, float_repr (W_PCT r),
         float_repr (OFF_RATING r), float_repr (DEF_RATING r), float_repr (NET_RATING r),
         float_repr (AST_PCT r), float_repr (REB_PCT r), float_repr (TS_PCT r),
         float_repr (PACE r), Season r]) rows))"
  by (induction rows arbitrary: f) (simp_all add: writerow_row_dict)

lemma writeheader_eq:
  "writeheader f =
     (None, f @ ''TEAM_ID,TEAM_NAME,W_PCT,OFF_RATING,DEF_RATING,NET_RATING,AST_PCT,REB_PCT,TS_PCT,PACE,Season''
              @ lineterminator)"
  by (simp add: writeheader_def writerow_def dict_to_list_def CSV_COLUMNS_def csv_record_def
        csv_field_def needs_quote_def quotechar_def lineterminator_def)

lemma example_rows:
  "build_rows example_standings example_advanced =
     Inr ([merge_row ''1'' \<lparr>s_TEAM_NAME = ''Alpha'', s_W_PCT = PyFinite False [6] 0\<rparr> example_stats], [])"
  by (simp add: build_rows_def example_standings_def example_advanced_def dict_contains_def
        dict_keys_def dict_getitem_def)

text \<open>
  C5: for every list of rows, the empty one too, the CSV Writer writes a file whose first
  record is the header with the eleven column names in their fixed order, followed by
  one record for each row, in the order of the list, with the row's values in the order
  of the columns. (The file is one that can be opened for writing.)
\<close>

theorem write_csv_header_then_rows:
  assumes "can_open w filepath"
  shows "\<exists>w'. write_csv rows filepath w = (Inr (), w') \<and>
           files w' filepath =
             Some (''TEAM_ID,TEAM_NAME,W_PCT,OFF_RATING,DEF_RATING,NET_RATING,AST_PCT,REB_PCT,TS_PCT,PACE,Season''
                   @ lineterminator
                   @ concat (map (\<lambda>r. csv_record
                       [TEAM_ID r, TEAM_NAME r, float_repr (W_PCT r),
                        float_repr (OFF_RATING r), float_repr (DEF_RATING r),
                        float_repr (NET_RATING r), float_repr (AST_PCT r),
                        float_repr (REB_PCT r), float_repr (TS_PCT r),
                        float_repr (PACE r), Season r]) rows))"
  using assms by (simp add: write_csv_def writeheader_eq writerows_eq emit_def)

theorem write_csv_header_then_rows_witness:
  "can_open example_world OUTPUT_FILE \<and>
   (\<exists>w'. write_csv [] OUTPUT_FILE example_world = (Inr (), w') \<and>
      files w' OUTPUT_FILE =
        Some (''TEAM_ID,TEAM_NAME,W_PCT,OFF_RATING,DEF_RATING,NET_RATING,AST_PCT,REB_PCT,TS_PCT,PACE,Season''
              @ lineterminator))"
proof -
  have openable: "can_open example_world OUTPUT_FILE"
    by (simp add: example_world_def OUTPUT_FILE_def)
  show ?thesis
    using openable write_csv_header_then_rows [OF openable, of "[]"] by simp
qed

text \<open>
  C8: for the standings \<open>{"1": {TEAM_NAME: "Alpha", W_PCT: 0.6}}\<close> and the advanced stats
  \<open>{"1": {OFF_RATING: 110.0, DEF_RATING: 105.0, NET_RATING: 5.0, AST_PCT: 0.2,
  REB_PCT: 0.5, TS_PCT: 0.55, PACE: 98.0}}\<close> the Row Builder returns one row, and the CSV
  Writer writes, after the header, the single record
  \<open>1,Alpha,0.6,110.0,105.0,5.0,0.2,0.5,0.55,98.0,2025-26\<close>.
\<close>

theorem example_csv:
  "(case build_rows example_standings example_advanced of
      Inl e \<Rightarrow> None
    | Inr (rows, out) \<Rightarrow>
        (case write_csv rows OUTPUT_FILE example_world of
           (Inl e, w') \<Rightarrow> None
         | (Inr u, w') \<Rightarrow> map_option (\<lambda>text. (length rows, text)) (files w' OUTPUT_FILE))) =
   Some (1, ''TEAM_ID,TEAM_NAME,W_PCT,OFF_RATING,DEF_RATING,NET_RATING,AST_PCT,REB_PCT,TS_PCT,PACE,Season''
            @ lineterminator
            @ ''1,Alpha,0.6,110.0,105.0,5.0,0.2,0.5,0.55,98.0,2025-26''
            @ lineterminator)"
  by (simp add: example_rows write_csv_def writeheader_eq writerows_eq emit_def
        example_world_def OUTPUT_FILE_def merge_row_def example_stats_def SEASON_def
        csv_record_def csv_field_def needs_quote_def quotechar_def lineterminator_def
        finite_repr_def digit_char_values)

subsection \<open>Orchestrator\<close>

lemma example_fetch_standings:
  "fst (fetch_standings example_float_ops example_world) =
     Inr [(''2'', \<lparr>s_TEAM_NAME = ''Beta'', s_W_PCT = PyFinite False [5] 0\<rparr>)]"
  by (simp add: fetch_standings_def standings_keywords example_world_def emit_def Let_def
        w_pct_def truediv_def float_overflow_bound_def example_float_ops_def two_thirds_def str_int_def
        str_nat.simps digit_char_values)

lemma fetch_advanced_stats_raises:
  "fst (fetch_advanced_stats fo w) =
     Inl (TypeError (''LeagueDashTeamStats.__init__() got an unexpected keyword argument ''
                     @ [CHR 0x27] @ ''per_mode_simple'' @ [CHR 0x27]))"
  by (simp add: fetch_advanced_stats_def advanced_keywords Let_def)


text \<open>
  C7: when the standings fetch raises, or it succeeds and the advanced-stats fetch raises,
  the orchestrator prints the diagnostic with the text of the error, ends the process
  with exit code 1, has sent each request at most once (no retry), and leaves every
  file as it was.
\<close>

theorem main_fetch_failure:
  assumes "fst (fetch_standings fo w) = Inl e \<or>
           (\<exists>standings. fst (fetch_standings fo w) = Inr standings) \<and>
           fst (fetch_advanced_stats fo w) = Inl e"
  shows "fst (main fo output w) = Exit 1 \<and>
         files (snd (main fo output w)) = files w \<and>
         Print (ApiCallFailed (exn_text e)) \<in> set (new_events w (snd (main fo output w))) \<and>
         count_list (new_events w (snd (main fo output w))) (Request LeagueStandingsV3) \<le> 1 \<and>
         count_list (new_events w (snd (main fo output w))) (Request LeagueDashTeamStats) \<le> 1"
  using assms
  by (auto simp add: main_def fetch_standings_def fetch_advanced_stats_def standings_keywords
        advanced_keywords api_call_failed_def emit_def new_events_def Let_def
        split: sum.splits)

theorem main_fetch_failure_witness:
  "fst (fetch_standings example_float_ops offline_world) =
     Inl (PyException ''ReadTimeout'' ''Read timed out.'') \<and>
   fst (main example_float_ops None offline_world) = Exit 1 \<and>
   files (snd (main example_float_ops None offline_world)) OUTPUT_FILE = None \<and>
   Print (ApiCallFailed ''Read timed out.'')
     \<in> set (new_events offline_world (snd (main example_float_ops None offline_world))) \<and>
   (\<exists>standings. fst (fetch_standings example_float_ops example_world) = Inr standings) \<and>
   fst (fetch_advanced_stats example_float_ops example_world) =
     Inl (TypeError (''LeagueDashTeamStats.__init__() got an unexpected keyword argument ''
                     @ [CHR 0x27] @ ''per_mode_simple'' @ [CHR 0x27])) \<and>
   fst (main example_float_ops None example_world) = Exit 1 \<and>
   files (snd (main example_float_ops None example_world)) OUTPUT_FILE = None \<and>
   Print (ApiCallFailed (''LeagueDashTeamStats.__init__() got an unexpected keyword argument ''
                         @ [CHR 0x27] @ ''per_mode_simple'' @ [CHR 0x27]))
     \<in> set (new_events example_world (snd (main example_float_ops None example_world)))"
proof -
  have first: "fst (fetch_standings example_float_ops offline_world) =
     Inl (PyException ''ReadTimeout'' ''Read timed out.'')"
    by (simp add: fetch_standings_def standings_keywords offline_world_def example_world_def
          emit_def Let_def)
  have second: "\<exists>standings. fst (fetch_standings example_float_ops example_world) = Inr standings"
    using example_fetch_standings by blast
  have third: "fst (fetch_advanced_stats example_float_ops example_world) =
     Inl (TypeError (''LeagueDashTeamStats.__init__() got an unexpected keyword argument ''
                     @ [CHR 0x27] @ ''per_mode_simple'' @ [CHR 0x27]))"
    by (rule fetch_advanced_stats_raises)
  have files: "files offline_world OUTPUT_FILE = None" "files example_world OUTPUT_FILE = None"
    by (simp_all add: offline_world_def example_world_def)
  show ?thesis
    using main_fetch_failure [of example_float_ops offline_world
        "PyException ''ReadTimeout'' ''Read timed out.''" None]
      main_fetch_failure [of example_float_ops example_world
        "TypeError (''LeagueDashTeamStats.__init__() got an unexpected keyword argument ''
                     @ [CHR 0x27] @ ''per_mode_simple'' @ [CHR 0x27])" None]
      first second third files
    by (simp add: TypeError_def)
qed

end
